theory Spec2Isabelle
  imports Main "HOL-Library.Word"
begin

section \<open>JavaScript values\<close>

text \<open>
  The values that flow through the tool registry, the guard and the sandbox: tool
  parameters, tool results and parsed JSON. A string is the list of its code units, so
  \<open>length\<close> is the \<^verbatim>\<open>.length\<close> of the source. An object is the list of its own
  enumerable properties in \<^verbatim>\<open>Object.keys\<close> order; a buffer is its bytes.
\<close>

datatype jsval =
    Undefined
  | Null
  | JBool bool
  | Num int
  | Str string
  | Buf "8 word list"
  | Arr "jsval list"
  | Obj "(string \<times> jsval) list"

text \<open>A thrown \<^verbatim>\<open>Error\<close> is represented by its message.\<close>

type_synonym error = string

text \<open>\<^verbatim>\<open>typeof v === 'object'\<close>: true of \<^verbatim>\<open>null\<close>, arrays, buffers and objects.\<close>

fun typeof_object :: "jsval \<Rightarrow> bool" where
  "typeof_object Null = True"
| "typeof_object (Buf _) = True"
| "typeof_object (Arr _) = True"
| "typeof_object (Obj _) = True"
| "typeof_object _ = False"

text \<open>Decimal rendering of an index or a counter, as template strings and
  \<^verbatim>\<open>Object.keys\<close> of an array produce it.\<close>

definition digit :: "nat \<Rightarrow> char" where
  "digit d = char_of (48 + d)"

fun decimal :: "nat \<Rightarrow> string" where
  "decimal n = (if n < 10 then [digit n] else decimal (n div 10) @ [digit (n mod 10)])"

declare decimal.simps [simp del]

text \<open>\<^verbatim>\<open>Object.keys(obj)\<close> paired with \<^verbatim>\<open>obj[key]\<close>: the own enumerable properties.
  An array or a buffer has its indices as keys.\<close>

definition indexed :: "'a list \<Rightarrow> (string \<times> 'a) list" where
  "indexed xs = zip (map decimal [0..<length xs]) xs"

fun ownEntries :: "jsval \<Rightarrow> (string \<times> jsval) list" where
  "ownEntries (Obj es) = es"
| "ownEntries (Arr xs) = indexed xs"
| "ownEntries (Buf bs) = indexed (map (\<lambda>b. Num (uint b)) bs)"
| "ownEntries _ = []"

section \<open>Tool guard\<close>

subsection \<open>Configuration on a heap of string arrays\<close>

text \<open>
  \<^verbatim>\<open>deniedTools\<close> and \<^verbatim>\<open>allowedTools\<close> are JavaScript arrays: a configuration object
  holds a reference to them, and copying the object with \<^verbatim>\<open>{ ...config }\<close> copies the
  reference, not the array. The arrays live in a heap; the scalar fields are values.
\<close>

type_synonym ref = nat
type_synonym heap = "ref \<Rightarrow> string list"

record ToolSecurityConfig =
  enabled :: bool
  validateParams :: bool
  sandboxExecution :: bool
  maxExecutionTime :: nat
  maxConcurrentCalls :: nat
  deniedTools :: ref
  allowedTools :: "ref option"

text \<open>\<^verbatim>\<open>Partial<ToolSecurityConfig>\<close>: every field may be absent. For
  \<^verbatim>\<open>allowedTools\<close> the outer option is the presence of the key, the inner one
  its value (\<^verbatim>\<open>undefined\<close> or an array).\<close>

record PartialConfig =
  p_enabled :: "bool option"
  p_validateParams :: "bool option"
  p_sandboxExecution :: "bool option"
  p_maxExecutionTime :: "nat option"
  p_maxConcurrentCalls :: "nat option"
  p_deniedTools :: "ref option"
  p_allowedTools :: "ref option option"

definition no_overrides :: PartialConfig where
  "no_overrides = \<lparr> p_enabled = None, p_validateParams = None, p_sandboxExecution = None,
     p_maxExecutionTime = None, p_maxConcurrentCalls = None, p_deniedTools = None,
     p_allowedTools = None \<rparr>"

text \<open>\<^verbatim>\<open>{ ...base, ...config }\<close>\<close>

definition spread :: "ToolSecurityConfig \<Rightarrow> PartialConfig \<Rightarrow> ToolSecurityConfig" where
  "spread base p = \<lparr>
     enabled = (case p_enabled p of None \<Rightarrow> enabled base | Some v \<Rightarrow> v),
     validateParams = (case p_validateParams p of None \<Rightarrow> validateParams base | Some v \<Rightarrow> v),
     sandboxExecution = (case p_sandboxExecution p of None \<Rightarrow> sandboxExecution base | Some v \<Rightarrow> v),
     maxExecutionTime = (case p_maxExecutionTime p of None \<Rightarrow> maxExecutionTime base | Some v \<Rightarrow> v),
     maxConcurrentCalls = (case p_maxConcurrentCalls p of None \<Rightarrow> maxConcurrentCalls base | Some v \<Rightarrow> v),
     deniedTools = (case p_deniedTools p of None \<Rightarrow> deniedTools base | Some v \<Rightarrow> v),
     allowedTools = (case p_allowedTools p of None \<Rightarrow> allowedTools base | Some v \<Rightarrow> v) \<rparr>"

text \<open>The module-level \<^verbatim>\<open>DEFAULT_CONFIG\<close>; its \<^verbatim>\<open>deniedTools: []\<close> is one array,
  allocated once when the module loads, at the address \<open>DEFAULT_deniedTools\<close>.\<close>

definition DEFAULT_deniedTools :: ref where
  "DEFAULT_deniedTools = 0"

definition DEFAULT_CONFIG :: ToolSecurityConfig where
  "DEFAULT_CONFIG = \<lparr> enabled = True, validateParams = True, sandboxExecution = False,
     maxExecutionTime = 30000, maxConcurrentCalls = 10,
     deniedTools = DEFAULT_deniedTools, allowedTools = None \<rparr>"

text \<open>The heap right after the module is loaded: every array is empty.\<close>

definition initial_heap :: heap where
  "initial_heap = (\<lambda>_. [])"

text \<open>\<^verbatim>\<open>array.push(x)\<close> and \<^verbatim>\<open>array.splice(i, 1)\<close> on the array at an address.\<close>

definition array_push :: "heap \<Rightarrow> ref \<Rightarrow> string \<Rightarrow> heap" where
  "array_push h r x = h(r := h r @ [x])"

definition array_splice1 :: "heap \<Rightarrow> ref \<Rightarrow> nat \<Rightarrow> heap" where
  "array_splice1 h r i = h(r := take i (h r) @ drop (Suc i) (h r))"

text \<open>\<^verbatim>\<open>array.indexOf(x)\<close>: the first index holding \<open>x\<close>, or \<open>None\<close> for \<open>-1\<close>.\<close>

fun indexOf :: "string list \<Rightarrow> string \<Rightarrow> nat option" where
  "indexOf [] x = None"
| "indexOf (y # ys) x = (if y = x then Some 0 else map_option Suc (indexOf ys x))"

subsection \<open>The guard object\<close>

text \<open>The notifications a guard fires through its \<^verbatim>\<open>events\<close> callbacks are recorded
  in the order they fire.\<close>

datatype guard_event =
    ValidationFailed string string
  | ExecutionBlocked string string
  | PrototypePollution string

record ToolGuard =
  g_config :: ToolSecurityConfig
  g_fired :: "guard_event list"

definition ToolGuard_new :: "PartialConfig \<Rightarrow> ToolGuard" where
  "ToolGuard_new config = \<lparr> g_config = spread DEFAULT_CONFIG config, g_fired = [] \<rparr>"

record ToolValidationResult =
  success :: bool
  data :: "jsval option"
  error :: "string option"
  violations :: "string list option"

definition ok_result :: "jsval \<Rightarrow> ToolValidationResult" where
  "ok_result v = \<lparr> success = True, data = Some v, error = None, violations = None \<rparr>"

definition fail_result :: "string \<Rightarrow> string list option \<Rightarrow> ToolValidationResult" where
  "fail_result msg vs = \<lparr> success = False, data = None, error = Some msg, violations = vs \<rparr>"

subsection \<open>Schema validation\<close>

text \<open>A schema is the capability \<^verbatim>\<open>schema.parse\<close>: it returns the validated value,
  throws a \<^verbatim>\<open>ZodError\<close> carrying issues (a path and a message each), or throws
  something else.\<close>

datatype zod_result =
    Parsed jsval
  | ZodError "(string list \<times> string) list"
  | Thrown error

type_synonym schema = "jsval \<Rightarrow> zod_result"

text \<open>\<^verbatim>\<open>parts.join(sep)\<close>\<close>

fun join :: "string \<Rightarrow> string list \<Rightarrow> string" where
  "join sep [] = []"
| "join sep [x] = x"
| "join sep (x # y # ys) = x @ sep @ join sep (y # ys)"

definition ToolGuard_validateParams ::
  "ToolGuard \<Rightarrow> string \<Rightarrow> jsval \<Rightarrow> schema \<Rightarrow> (error + ToolValidationResult) \<times> ToolGuard" where
  "ToolGuard_validateParams g toolName params schema =
     (if \<not> enabled (g_config g) \<or> \<not> validateParams (g_config g) then (Inr (ok_result params), g)
      else case schema params of
        Parsed d \<Rightarrow> (Inr (ok_result d), g)
      | ZodError issues \<Rightarrow>
          (let violations = map (\<lambda>(path, message). join ''.'' path @ '': '' @ message) issues;
               message = ''Schema validation failed: '' @ join ''; '' violations
           in (Inr (fail_result ''Parameter validation failed'' (Some violations)),
               g\<lparr>g_fired := g_fired g @ [ValidationFailed toolName message]\<rparr>))
      | Thrown e \<Rightarrow> (Inl e, g))"

subsection \<open>Allow and deny lists\<close>

definition isToolAllowed :: "heap \<Rightarrow> ToolGuard \<Rightarrow> string \<Rightarrow> bool \<times> ToolGuard" where
  "isToolAllowed h g toolName =
     (if \<not> enabled (g_config g) then (True, g)
      else if toolName \<in> set (h (deniedTools (g_config g))) then
        (False, g\<lparr>g_fired := g_fired g @ [ExecutionBlocked toolName ''Tool is in deny list'']\<rparr>)
      else case allowedTools (g_config g) of
        Some r \<Rightarrow>
          (if toolName \<notin> set (h r) then
             (False, g\<lparr>g_fired := g_fired g @ [ExecutionBlocked toolName ''Tool is not in allow list'']\<rparr>)
           else (True, g))
      | None \<Rightarrow> (True, g))"

definition getConfig :: "ToolGuard \<Rightarrow> ToolSecurityConfig" where
  "getConfig g = g_config g"

definition updateConfig :: "ToolGuard \<Rightarrow> PartialConfig \<Rightarrow> ToolGuard" where
  "updateConfig g config = g\<lparr>g_config := spread (g_config g) config\<rparr>"

definition denyTool :: "heap \<Rightarrow> ToolGuard \<Rightarrow> string \<Rightarrow> heap" where
  "denyTool h g toolName =
     (if toolName \<notin> set (h (deniedTools (g_config g)))
      then array_push h (deniedTools (g_config g)) toolName else h)"

definition allowTool :: "heap \<Rightarrow> ToolGuard \<Rightarrow> string \<Rightarrow> heap" where
  "allowTool h g toolName =
     (case indexOf (h (deniedTools (g_config g))) toolName of
        Some index \<Rightarrow> array_splice1 h (deniedTools (g_config g)) index
      | None \<Rightarrow> h)"

subsection \<open>Prototype-pollution scan\<close>

definition dangerousKeys :: "string list" where
  "dangerousKeys = [''__proto__'', ''constructor'', ''prototype'']"

text \<open>The recursive scan; \<open>scanKeys\<close> is its \<^verbatim>\<open>for (const key of Object.keys(obj))\<close>
  loop, which returns at the first hit.\<close>

function hasPrototypePollution :: "jsval \<Rightarrow> nat \<Rightarrow> bool"
  and scanKeys :: "(string \<times> jsval) list \<Rightarrow> nat \<Rightarrow> bool" where
  "hasPrototypePollution obj depth =
     (if depth > 10 then False
      else if \<not> typeof_object obj \<or> obj = Null then False
      else scanKeys (ownEntries obj) depth)"
| "scanKeys [] depth = False"
| "scanKeys ((key, v) # rest) depth =
     (if key \<in> set dangerousKeys then True
      else if typeof_object v \<and> hasPrototypePollution v (depth + 1) then True
      else scanKeys rest depth)"
  by pat_completeness auto
termination
  by (relation "measures
        [\<lambda>x. case x of Inl (obj, d) \<Rightarrow> (if d > 10 then 0 else 2 * (12 - d))
                     | Inr (es, d) \<Rightarrow> (if d > 10 then 1 else 2 * (12 - d) - 1),
         \<lambda>x. case x of Inl (obj, d) \<Rightarrow> 0 | Inr (es, d) \<Rightarrow> length es]") auto

declare hasPrototypePollution.simps [simp del]

subsection \<open>Parsing untrusted arguments\<close>

text \<open>\<^verbatim>\<open>JSON.parse\<close> belongs to the runtime and is a parameter: it returns the parsed
  value or throws a \<^verbatim>\<open>SyntaxError\<close> with a message.\<close>

type_synonym json_parser = "string \<Rightarrow> error + jsval"

text \<open>\<^verbatim>\<open>Array.isArray\<close>\<close>

fun isArray :: "jsval \<Rightarrow> bool" where
  "isArray (Arr _) = True"
| "isArray _ = False"

text \<open>With the guard disabled, a \<^verbatim>\<open>JSON.parse\<close> failure is outside the \<^verbatim>\<open>try\<close> and
  propagates to the caller: the \<open>Inl\<close> result.\<close>

definition parseToolArguments ::
  "json_parser \<Rightarrow> ToolGuard \<Rightarrow> string \<Rightarrow> string \<Rightarrow> (error + ToolValidationResult) \<times> ToolGuard" where
  "parseToolArguments JSON_parse g toolName jsonString =
     (if \<not> enabled (g_config g) then
        (case JSON_parse jsonString of
           Inl e \<Rightarrow> (Inl e, g)
         | Inr parsed \<Rightarrow> (Inr (ok_result parsed), g))
      else case JSON_parse jsonString of
        Inr parsed \<Rightarrow>
          (if hasPrototypePollution parsed 0 then
             (Inr (fail_result ''Invalid tool arguments: potentially malicious content detected'' None),
              g\<lparr>g_fired := g_fired g @ [PrototypePollution toolName]\<rparr>)
           else if \<not> typeof_object parsed \<or> parsed = Null \<or> isArray parsed then
             (Inr (fail_result ''Tool arguments must be a JSON object'' None), g)
           else (Inr (ok_result parsed), g))
      | Inl errorMsg \<Rightarrow>
          (Inr (fail_result ''Invalid JSON in tool arguments'' None),
           g\<lparr>g_fired := g_fired g @ [ValidationFailed toolName (''JSON parsing failed: '' @ errorMsg)]\<rparr>))"

section \<open>Tools and the world they run in\<close>

text \<open>
  A tool's \<^verbatim>\<open>execute\<close> is caller-supplied asynchronous code. It is a transformer of
  the world outside the registry and the sandbox, and it yields the way its promise
  settles: \<open>Some (Inr v)\<close> resolves with \<open>v\<close>, \<open>Some (Inl e)\<close> rejects with \<open>e\<close>, \<open>None\<close>
  never settles. The world carries the clock that \<^verbatim>\<open>Date.now()\<close> reads; what else it
  holds is left open (the record's extension). The registry and the sandbox that run a
  tool are not part of its world: a tool does not call back into them.
\<close>

record world =
  now :: nat

record SandboxInfo =
  allowedOperations :: "string set"
  maxOutputSize :: nat
  executionId :: string

text \<open>\<^verbatim>\<open>ToolContext\<close>: the free-form bag of keys, and the \<^verbatim>\<open>sandbox\<close> key that a
  \<^verbatim>\<open>SandboxedContext\<close> adds.\<close>

record ToolContext =
  bag :: "(string \<times> jsval) list"
  sandbox :: "SandboxInfo option"

definition empty_context :: ToolContext where
  "empty_context = \<lparr> bag = [], sandbox = None \<rparr>"

type_synonym settlement = "(error + jsval) option"

record 'a Tool =
  name :: string
  description :: string
  schema :: "schema option"
  execute :: "jsval \<Rightarrow> ToolContext \<Rightarrow> 'a world_scheme \<Rightarrow> settlement \<times> 'a world_scheme"

section \<open>Tool sandbox\<close>

subsection \<open>State\<close>

datatype sandbox_event =
    ConcurrencyExceeded string nat
  | Timeout string nat
  | OutputSizeExceeded string nat nat
  | Cancelled string

text \<open>
  \<open>activeExecutions\<close> is the \<^verbatim>\<open>Map<string, AbortController>\<close> in insertion order; a
  controller is referred to by its address in \<open>controllers\<close>, which holds for every
  \<^verbatim>\<open>AbortController\<close> the sandbox has created whether \<^verbatim>\<open>abort()\<close> was called on it.
  \<open>s_fired\<close> records the notifications sent through the \<^verbatim>\<open>events\<close> callbacks; the
  callbacks are taken to return normally, as notifications are fire-and-forget.
\<close>

record ToolSandbox =
  s_config :: ToolSecurityConfig
  s_fired :: "sandbox_event list"
  activeExecutions :: "(string \<times> ref) list"
  executionCount :: nat
  controllers :: "ref \<Rightarrow> bool"
  created :: nat

text \<open>\<^verbatim>\<open>Map.prototype.get\<close>, \<^verbatim>\<open>set\<close> and \<^verbatim>\<open>delete\<close>: setting an existing key keeps
  its position, a new key goes last.\<close>

definition map_get :: "('k \<times> 'v) list \<Rightarrow> 'k \<Rightarrow> 'v option" where
  "map_get m k = map_of m k"

fun map_set :: "('k \<times> 'v) list \<Rightarrow> 'k \<Rightarrow> 'v \<Rightarrow> ('k \<times> 'v) list" where
  "map_set [] k v = [(k, v)]"
| "map_set ((k', v') # m) k v = (if k' = k then (k, v) # m else (k', v') # map_set m k v)"

definition map_delete :: "('k \<times> 'v) list \<Rightarrow> 'k \<Rightarrow> ('k \<times> 'v) list" where
  "map_delete m k = filter (\<lambda>e. fst e \<noteq> k) m"

text \<open>The sandbox constructor spreads the overrides over an inline default object whose
  \<^verbatim>\<open>deniedTools: []\<close> is a fresh array, at the address \<open>fresh\<close>.\<close>

definition ToolSandbox_new :: "ref \<Rightarrow> PartialConfig \<Rightarrow> ToolSandbox" where
  "ToolSandbox_new fresh config = \<lparr>
     s_config = spread \<lparr> enabled = True, validateParams = True, sandboxExecution = True,
                         maxExecutionTime = 30000, maxConcurrentCalls = 10,
                         deniedTools = fresh, allowedTools = None \<rparr> config,
     s_fired = [], activeExecutions = [], executionCount = 0,
     controllers = (\<lambda>_. False), created = 0 \<rparr>"

definition getActiveCount :: "ToolSandbox \<Rightarrow> nat" where
  "getActiveCount sb = length (activeExecutions sb)"

definition getActiveExecutionIds :: "ToolSandbox \<Rightarrow> string list" where
  "getActiveExecutionIds sb = map fst (activeExecutions sb)"

subsection \<open>Cancellation\<close>

definition cancel :: "ToolSandbox \<Rightarrow> string \<Rightarrow> bool \<times> ToolSandbox" where
  "cancel sb execId =
     (case map_get (activeExecutions sb) execId of
        Some controller \<Rightarrow>
          (True, sb\<lparr> controllers := (controllers sb)(controller := True),
                     activeExecutions := map_delete (activeExecutions sb) execId,
                     s_fired := s_fired sb @ [Cancelled execId] \<rparr>)
      | None \<Rightarrow> (False, sb))"

text \<open>\<^verbatim>\<open>cancelAll\<close>: the loop over the entries, then \<^verbatim>\<open>clear()\<close>.\<close>

fun cancelAll_loop :: "(string \<times> ref) list \<Rightarrow> ToolSandbox \<Rightarrow> ToolSandbox" where
  "cancelAll_loop [] sb = sb"
| "cancelAll_loop ((execId, controller) # rest) sb =
     cancelAll_loop rest
       (sb\<lparr> controllers := (controllers sb)(controller := True),
            s_fired := s_fired sb @ [Cancelled execId] \<rparr>)"

definition cancelAll :: "ToolSandbox \<Rightarrow> ToolSandbox" where
  "cancelAll sb = (cancelAll_loop (activeExecutions sb) sb)\<lparr> activeExecutions := [] \<rparr>"

subsection \<open>Output size\<close>

text \<open>\<^verbatim>\<open>JSON.stringify\<close> belongs to the runtime and is a parameter. \<open>None\<close> stands for
  every way in which \<^verbatim>\<open>JSON.stringify(value).length\<close> throws: a cycle, a BigInt, or a
  value that serialises to \<^verbatim>\<open>undefined\<close>.\<close>

type_synonym json_printer = "jsval \<Rightarrow> string option"

fun estimateSize :: "json_printer \<Rightarrow> jsval \<Rightarrow> nat" where
  "estimateSize JSON_stringify Null = 0"
| "estimateSize JSON_stringify Undefined = 0"
| "estimateSize JSON_stringify (Str s) = length s * 2"
| "estimateSize JSON_stringify (Num n) = 8"
| "estimateSize JSON_stringify (JBool b) = 4"
| "estimateSize JSON_stringify (Buf bs) = length bs"
| "estimateSize JSON_stringify v =
     (case JSON_stringify v of Some text \<Rightarrow> length text * 2 | None \<Rightarrow> 0)"

subsection \<open>The timeout race\<close>

text \<open>
  \<^verbatim>\<open>executeWithTimeout\<close> builds a promise and registers three callbacks that race to
  settle it: the timer callback, the abort listener and the \<^verbatim>\<open>then\<close>/\<^verbatim>\<open>catch\<close> pair
  on the promise of \<^verbatim>\<open>fn()\<close>. The race records the promise (\<open>settled\<close>, \<open>None\<close> while
  pending; once set, \<^verbatim>\<open>resolve\<close> and \<^verbatim>\<open>reject\<close> do nothing), whether the timer is
  still registered, whether the abort listener is still registered, and whether the
  promise of \<^verbatim>\<open>fn()\<close> is still to settle.
\<close>

record race =
  settled :: settlement
  timerArmed :: bool
  listening :: bool
  fnPending :: bool

datatype race_event = TimerFires | AbortFires | FnSettles

definition race_start :: race where
  "race_start = \<lparr> settled = None, timerArmed = True, listening = True, fnPending = True \<rparr>"

text \<open>\<^verbatim>\<open>resolve(v)\<close> or \<^verbatim>\<open>reject(e)\<close> on the promise: the first call wins.\<close>

definition settle :: "error + jsval \<Rightarrow> race \<Rightarrow> race" where
  "settle outcome r = (case settled r of None \<Rightarrow> r\<lparr> settled := Some outcome \<rparr> | Some _ \<Rightarrow> r)"

definition timeout_error :: "nat \<Rightarrow> error" where
  "timeout_error timeoutMs = ''Tool execution timed out after '' @ decimal timeoutMs @ ''ms''"

text \<open>One callback runs. \<open>fnr\<close> is the way the promise of \<^verbatim>\<open>fn()\<close> settles. A cleared
  or fired timer does not fire, a removed or used listener (\<^verbatim>\<open>once: true\<close>) is not
  called, and a promise settles once, so these events do nothing then.\<close>

fun race_step ::
  "string \<Rightarrow> nat \<Rightarrow> settlement \<Rightarrow> race_event \<Rightarrow> race \<times> sandbox_event list \<Rightarrow> race \<times> sandbox_event list" where
  "race_step toolName timeoutMs fnr TimerFires (r, fired) =
     (if timerArmed r then
        (settle (Inl (timeout_error timeoutMs)) (r\<lparr> timerArmed := False \<rparr>),
         fired @ [Timeout toolName timeoutMs])
      else (r, fired))"
| "race_step toolName timeoutMs fnr AbortFires (r, fired) =
     (if listening r then
        (settle (Inl ''Tool execution was cancelled'') (r\<lparr> timerArmed := False, listening := False \<rparr>),
         fired)
      else (r, fired))"
| "race_step toolName timeoutMs fnr FnSettles (r, fired) =
     (case fnr of
        Some outcome \<Rightarrow>
          (if fnPending r then
             (settle outcome (r\<lparr> timerArmed := False, listening := False, fnPending := False \<rparr>),
              fired)
           else (r, fired))
      | None \<Rightarrow> (r, fired))"

text \<open>The promise of \<^verbatim>\<open>executeWithTimeout\<close> after the given callbacks have run in the
  given order, and the notifications they fired.\<close>

definition executeWithTimeout ::
  "settlement \<Rightarrow> nat \<Rightarrow> string \<Rightarrow> race_event list \<Rightarrow> race \<times> sandbox_event list" where
  "executeWithTimeout fnr timeoutMs toolName evs =
     foldl (\<lambda>st ev. race_step toolName timeoutMs fnr ev st) (race_start, []) evs"

subsection \<open>Sandboxed execution\<close>

text \<open>A hook is caller-supplied code too; what matters here is whether the promise it
  returns resolves or rejects.\<close>

datatype hook_outcome = HookDone | HookThrows error

record 'a SandboxOptions =
  o_maxExecutionTime :: "nat option"
  o_maxOutputSize :: "nat option"
  o_allowedOperations :: "string list option"
  onBeforeExecution :: "('a Tool \<Rightarrow> jsval \<Rightarrow> hook_outcome) option"
  onAfterExecution :: "('a Tool \<Rightarrow> jsval \<Rightarrow> error option \<Rightarrow> hook_outcome) option"

definition no_options :: "'a SandboxOptions" where
  "no_options = \<lparr> o_maxExecutionTime = None, o_maxOutputSize = None,
     o_allowedOperations = None, onBeforeExecution = None, onAfterExecution = None \<rparr>"

text \<open>\<^verbatim>\<open>x || d\<close> on an optional number: an absent \<open>x\<close> and \<open>0\<close> are both falsy.\<close>

definition or_else :: "nat option \<Rightarrow> nat \<Rightarrow> nat" where
  "or_else x d = (case x of None \<Rightarrow> d | Some n \<Rightarrow> if n = 0 then d else n)"

text \<open>\<^verbatim>\<open>await options.onBeforeExecution?.(tool, params)\<close> and
  \<^verbatim>\<open>await options.onAfterExecution?.(tool, result, error)\<close>\<close>

definition call_before :: "'a SandboxOptions \<Rightarrow> 'a Tool \<Rightarrow> jsval \<Rightarrow> hook_outcome" where
  "call_before options tool params =
     (case onBeforeExecution options of None \<Rightarrow> HookDone | Some hook \<Rightarrow> hook tool params)"

definition call_after ::
  "'a SandboxOptions \<Rightarrow> 'a Tool \<Rightarrow> jsval \<Rightarrow> error option \<Rightarrow> hook_outcome" where
  "call_after options tool result err =
     (case onAfterExecution options of None \<Rightarrow> HookDone | Some hook \<Rightarrow> hook tool result err)"

text \<open>The \<^verbatim>\<open>catch\<close> block: the after-hook is told of the error, then the error is
  rethrown; if the hook throws, its error leaves the block instead.\<close>

definition catch_block :: "'a SandboxOptions \<Rightarrow> 'a Tool \<Rightarrow> error \<Rightarrow> error" where
  "catch_block options tool err =
     (case call_after options tool Undefined (Some err) of
        HookThrows hook_err \<Rightarrow> hook_err
      | HookDone \<Rightarrow> err)"

text \<open>The \<^verbatim>\<open>finally\<close> block.\<close>

definition finally_block :: "ToolSandbox \<Rightarrow> string \<Rightarrow> ToolSandbox" where
  "finally_block sb execId = sb\<lparr> activeExecutions := map_delete (activeExecutions sb) execId \<rparr>"

text \<open>What \<^verbatim>\<open>execute\<close> does once the promise of \<^verbatim>\<open>executeWithTimeout\<close> has settled
  with \<open>outcome\<close>: the size check against \<open>maxSize\<close> (the
  \<^verbatim>\<open>sandboxedContext.sandbox.maxOutputSize\<close>) and the after-hook on success, the \<^verbatim>\<open>catch\<close> block on
  failure, and the \<^verbatim>\<open>finally\<close> block in every case.\<close>

definition complete ::
  "json_printer \<Rightarrow> ToolSandbox \<Rightarrow> 'a Tool \<Rightarrow> 'a SandboxOptions \<Rightarrow> nat \<Rightarrow> string
     \<Rightarrow> error + jsval \<Rightarrow> (error + jsval) \<times> ToolSandbox" where
  "complete JSON_stringify sb tool options maxSize execId outcome =
     (case outcome of
        Inl err \<Rightarrow> (Inl (catch_block options tool err), finally_block sb execId)
      | Inr result \<Rightarrow>
          (let outputSize = estimateSize JSON_stringify result
           in if outputSize > maxSize then
                (Inl (catch_block options tool ''Tool output exceeded maximum size limit''),
                 finally_block
                   (sb\<lparr> s_fired := s_fired sb @ [OutputSizeExceeded (name tool) outputSize maxSize] \<rparr>)
                   execId)
              else case call_after options tool result None of
                     HookThrows hook_err \<Rightarrow>
                       (Inl (catch_block options tool hook_err), finally_block sb execId)
                   | HookDone \<Rightarrow> (Inr result, finally_block sb execId)))"

text \<open>\<^verbatim>\<open>`exec-${++this.executionCount}-${Date.now()}`\<close>, from the incremented counter
  and the clock.\<close>

definition newExecutionId :: "nat \<Rightarrow> nat \<Rightarrow> string" where
  "newExecutionId count time = ''exec-'' @ decimal count @ ''-'' @ decimal time"

definition ToolSandbox_isEnabled :: "ToolSandbox \<Rightarrow> bool" where
  "ToolSandbox_isEnabled sb = (enabled (s_config sb) \<and> sandboxExecution (s_config sb))"

text \<open>
  \<^verbatim>\<open>ToolSandbox.execute\<close>. \<open>evs\<close> is the order in which the callbacks of the timeout
  race run while the call is suspended. The result is \<open>None\<close> when the race has not been
  decided by them: the call is then still in flight, and its execution id is active.
  The tool is invoked when the race starts, and the world returned is the one its run
  leaves, also when the timer or a cancellation decides the race first: cancellation is
  cooperative and stops the waiting, not the tool.
\<close>

definition ToolSandbox_execute ::
  "json_printer \<Rightarrow> ToolSandbox \<Rightarrow> 'a Tool \<Rightarrow> jsval \<Rightarrow> ToolContext \<Rightarrow> 'a SandboxOptions
     \<Rightarrow> race_event list \<Rightarrow> 'a world_scheme \<Rightarrow> settlement \<times> ToolSandbox \<times> 'a world_scheme" where
  "ToolSandbox_execute JSON_stringify sb tool params baseContext options evs w =
     (if \<not> enabled (s_config sb) \<or> \<not> sandboxExecution (s_config sb) then
        (let (r, w') = execute tool params baseContext w in (r, sb, w'))
      else if length (activeExecutions sb) \<ge> maxConcurrentCalls (s_config sb) then
        (Some (Inl ''Too many concurrent tool executions''),
         sb\<lparr> s_fired := s_fired sb @ [ConcurrencyExceeded (name tool) (length (activeExecutions sb))] \<rparr>,
         w)
      else
        let count = executionCount sb + 1;
            execId = newExecutionId count (now w);
            controller = created sb;
            maxSize = or_else (o_maxOutputSize options) (1024 * 1024);
            sb1 = sb\<lparr> executionCount := count, created := created sb + 1,
                      controllers := (controllers sb)(controller := False),
                      activeExecutions := map_set (activeExecutions sb) execId controller \<rparr>;
            sandboxedContext = baseContext\<lparr> sandbox := Some
              \<lparr> allowedOperations =
                  set (case o_allowedOperations options of Some ops \<Rightarrow> ops | None \<Rightarrow> []),
                maxOutputSize = maxSize,
                executionId = execId \<rparr> \<rparr>;
            timeout = or_else (o_maxExecutionTime options) (maxExecutionTime (s_config sb))
        in case call_before options tool params of
             HookThrows hook_err \<Rightarrow>
               (Some (Inl (catch_block options tool hook_err)), finally_block sb1 execId, w)
           | HookDone \<Rightarrow>
               (let (fnr, w') = execute tool params sandboxedContext w;
                    (r, fired) = executeWithTimeout fnr timeout (name tool) evs;
                    sb2 = sb1\<lparr> s_fired := s_fired sb1 @ fired \<rparr>
                in case settled r of
                     None \<Rightarrow> (None, sb2, w')
                   | Some outcome \<Rightarrow>
                       (let (res, sb3) =
                              complete JSON_stringify sb2 tool options maxSize execId outcome
                        in (Some res, sb3, w'))))"





subsection \<open>Wrapping a tool with the guard and the sandbox\<close>

text \<open>\<^verbatim>\<open>"text"\<close> in a template string.\<close>

definition quoted :: "string \<Rightarrow> string" where
  "quoted text = [CHR 0x22] @ text @ [CHR 0x22]"

text \<open>
  The \<^verbatim>\<open>execute\<close> of the tool that \<^verbatim>\<open>createSecureTool(tool, sandbox, guard)\<close> returns.
  The guard and the sandbox that the closure captures are passed in and handed back;
  \<open>h\<close> is the heap holding the guard's lists. The sandbox is called without options.
\<close>

definition createSecureTool ::
  "heap \<Rightarrow> json_printer \<Rightarrow> 'a Tool \<Rightarrow> ToolSandbox \<Rightarrow> ToolGuard \<Rightarrow> jsval \<Rightarrow> ToolContext option
     \<Rightarrow> race_event list \<Rightarrow> 'a world_scheme
     \<Rightarrow> settlement \<times> (ToolGuard \<times> ToolSandbox) \<times> 'a world_scheme" where
  "createSecureTool h JSON_stringify tool sb guard params ctx evs w =
     (let run = (\<lambda>params' g.
            case ToolSandbox_execute JSON_stringify sb tool params'
                   (case ctx of Some c \<Rightarrow> c | None \<Rightarrow> empty_context) no_options evs w of
              (r, sb', w') \<Rightarrow> (r, (g, sb'), w'))
      in case isToolAllowed h guard (name tool) of
           (False, g) \<Rightarrow>
             (Some (Inl (''Tool '' @ quoted (name tool) @ '' is not allowed'')), (g, sb), w)
         | (True, g) \<Rightarrow>
             (case schema tool of
                None \<Rightarrow> run params g
              | Some sch \<Rightarrow>
                  (case ToolGuard_validateParams g (name tool) params sch of
                     (Inl thrown, g') \<Rightarrow> (Some (Inl thrown), (g', sb), w)
                   | (Inr validation, g') \<Rightarrow>
                       if \<not> success validation then
                         (Some (Inl (''Validation failed: '' @
                                    (case error validation of Some e \<Rightarrow> e | None \<Rightarrow> ''undefined''))),
                          (g', sb), w)
                       else run (case data validation of Some d \<Rightarrow> d | None \<Rightarrow> Undefined) g')))"

section \<open>Tool registry\<close>

text \<open>The raw counters kept per tool, and the registry: \<open>tools\<close> and \<open>usageStats\<close> are
  the two \<^verbatim>\<open>Map\<close>s, \<open>r_context\<close> the ambient \<^verbatim>\<open>context\<close> given to every tool.\<close>

record UsageCounters =
  calls :: nat
  failures :: nat
  totalDuration :: int

record 'a ToolRegistry =
  tools :: "(string \<times> 'a Tool) list"
  r_context :: ToolContext
  usageStats :: "(string \<times> UsageCounters) list"

definition ToolRegistry_create :: "ToolContext \<Rightarrow> 'a ToolRegistry" where
  "ToolRegistry_create ctx = \<lparr> tools = [], r_context = ctx, usageStats = [] \<rparr>"

text \<open>\<^verbatim>\<open>register\<close>: the shape check demands a non-empty name and description (the
  parameter schema, which plays no part in execution, is not modelled); the message of a
  rejected definition continues with the validator's own text, which is left out.\<close>

definition register :: "'a ToolRegistry \<Rightarrow> 'a Tool \<Rightarrow> error + 'a ToolRegistry" where
  "register reg tool =
     (if name tool = [] \<or> description tool = [] then
        Inl (''Invalid tool definition for '' @ quoted (name tool))
      else Inr (reg\<lparr> tools := map_set (tools reg) (name tool) tool,
                     usageStats := map_set (usageStats reg) (name tool)
                        \<lparr> calls = 0, failures = 0, totalDuration = 0 \<rparr> \<rparr>))"

text \<open>
  \<^verbatim>\<open>ToolRegistry.execute\<close>. \<^verbatim>\<open>stats\<close> is the counters object stored under the name;
  the increments after the \<^verbatim>\<open>await\<close> update that same object. Were it missing,
  \<^verbatim>\<open>stats.calls++\<close> would throw a \<^verbatim>\<open>TypeError\<close>. The result is \<open>None\<close> when the tool's
  promise never settles.
\<close>

definition ToolRegistry_execute ::
  "'a ToolRegistry \<Rightarrow> string \<Rightarrow> jsval \<Rightarrow> 'a world_scheme
     \<Rightarrow> settlement \<times> 'a ToolRegistry \<times> 'a world_scheme" where
  "ToolRegistry_execute reg toolName params w =
     (case map_get (tools reg) toolName of
        None \<Rightarrow> (Some (Inl (''Tool '' @ quoted toolName @ '' not found'')), reg, w)
      | Some tool \<Rightarrow>
          (case map_get (usageStats reg) toolName of
             None \<Rightarrow>
               (Some (Inl ''Cannot read properties of undefined (reading 'calls')''), reg, w)
           | Some stats \<Rightarrow>
               (let startTime = now w;
                    stats1 = stats\<lparr> calls := calls stats + 1 \<rparr>;
                    (r, w') = execute tool params (r_context reg) w
                in case r of
                     None \<Rightarrow>
                       (None, reg\<lparr> usageStats := map_set (usageStats reg) toolName stats1 \<rparr>, w')
                   | Some (Inr result) \<Rightarrow>
                       (let duration = int (now w') - int startTime
                        in (Some (Inr result),
                            reg\<lparr> usageStats := map_set (usageStats reg) toolName
                                  (stats1\<lparr> totalDuration := totalDuration stats1 + duration \<rparr>) \<rparr>,
                            w'))
                   | Some (Inl err) \<Rightarrow>
                       (Some (Inl err),
                        reg\<lparr> usageStats := map_set (usageStats reg) toolName
                              (stats1\<lparr> failures := failures stats1 + 1 \<rparr>) \<rparr>,
                        w'))))"





section \<open>Example tools\<close>


definition echo_tool :: "string \<Rightarrow> unit Tool" where
  "echo_tool toolName = \<lparr> name = toolName, description = ''returns its parameters'', schema = None,
                  execute = (\<lambda>params ctx w. (Some (Inr params), w)) \<rparr>"


definition failing_tool :: "unit Tool" where
  "failing_tool = \<lparr> name = ''failing_tool'', description = ''fails after 5 ms'', schema = None,
                  execute = (\<lambda>params ctx w. (Some (Inl ''Tool failed''), w\<lparr> now := now w + 5 \<rparr>)) \<rparr>"

text \<open>The registry after \<^verbatim>\<open>register\<close> of a tool \<^verbatim>\<open>ok\<close> that resolves with its
  parameters.\<close>

definition ok_registry :: "unit ToolRegistry" where
  "ok_registry = \<lparr> tools = [(''ok'', echo_tool ''ok'')], r_context = empty_context,
                    usageStats = [(''ok'', \<lparr> calls = 0, failures = 0, totalDuration = 0 \<rparr>)] \<rparr>"

subsection \<open>What the scan is meant to find\<close>

text \<open>\<open>dangerousAt l v\<close>: some object or array nested \<open>l\<close> levels below \<open>v\<close> (\<open>v\<close> itself
  for \<open>l = 0\<close>) has one of the dangerous names among its own keys.\<close>

fun dangerousAt :: "nat \<Rightarrow> jsval \<Rightarrow> bool" where
  "dangerousAt 0 v = list_ex (\<lambda>(k, x). k \<in> set dangerousKeys) (ownEntries v)"
| "dangerousAt (Suc l) v = list_ex (\<lambda>(k, x). dangerousAt l x) (ownEntries v)"

text \<open>\<open>wrap n v\<close> is \<^verbatim>\<open>{"a": {"a": ... v ...}}\<close> with \<open>n\<close> enclosing objects.\<close>

definition wrap :: "nat \<Rightarrow> jsval \<Rightarrow> jsval" where
  "wrap n v = ((\<lambda>x. Obj [(''a'', x)]) ^^ n) v"

section \<open>Properties of the guard\<close>

subsection \<open>The scan finds exactly the dangerous keys of the first eleven levels\<close>

lemma dangerousAt_object: "dangerousAt l v \<Longrightarrow> typeof_object v \<and> v \<noteq> Null"
  by (cases l; cases v) auto

lemma scan_characterisation:
  "hasPrototypePollution obj d = (\<exists>l. d + l \<le> 10 \<and> dangerousAt l obj)"
  "scanKeys es d =
     list_ex (\<lambda>(k, x). k \<in> set dangerousKeys \<or> (\<exists>l. d + 1 + l \<le> 10 \<and> dangerousAt l x)) es"
proof (induction obj d and es d rule: hasPrototypePollution_scanKeys.induct)
  case (1 obj depth)
  show ?case
  proof (cases "depth > 10")
    case True
    then show ?thesis by (simp add: hasPrototypePollution.simps)
  next
    case False
    show ?thesis
    proof (cases "\<not> typeof_object obj \<or> obj = Null")
      case True
      then have "\<And>l. \<not> dangerousAt l obj" using dangerousAt_object by blast
      with True False show ?thesis by (simp add: hasPrototypePollution.simps)
    next
      case nn: False
      have "hasPrototypePollution obj depth = scanKeys (ownEntries obj) depth"
        using False nn by (simp add: hasPrototypePollution.simps)
      also have "\<dots> = list_ex (\<lambda>(k, x). k \<in> set dangerousKeys
                    \<or> (\<exists>l. depth + 1 + l \<le> 10 \<and> dangerousAt l x)) (ownEntries obj)"
        using 1 False nn by simp
      also have "\<dots> = (\<exists>l. depth + l \<le> 10 \<and> dangerousAt l obj)" (is "?L = ?R")
      proof
        assume ?L
        then obtain k x where kx: "(k, x) \<in> set (ownEntries obj)"
          and h: "k \<in> set dangerousKeys \<or> (\<exists>l. depth + 1 + l \<le> 10 \<and> dangerousAt l x)"
          by (auto simp: list_ex_iff)
        from h show ?R
        proof
          assume "k \<in> set dangerousKeys"
          with kx have "dangerousAt 0 obj" by (auto simp: list_ex_iff)
          with False show ?R by (intro exI[of _ 0]) simp
        next
          assume "\<exists>l. depth + 1 + l \<le> 10 \<and> dangerousAt l x"
          then obtain l where "depth + 1 + l \<le> 10" "dangerousAt l x" by blast
          with kx have "dangerousAt (Suc l) obj" "depth + Suc l \<le> 10"
            by (auto simp: list_ex_iff)
          then show ?R by blast
        qed
      next
        assume ?R
        then obtain l where l: "depth + l \<le> 10" "dangerousAt l obj" by blast
        show ?L
        proof (cases l)
          case 0
          with l show ?thesis by (auto simp: list_ex_iff)
        next
          case (Suc m)
          with l show ?thesis by (auto simp: list_ex_iff)
        qed
      qed
      finally show ?thesis .
    qed
  qed
next
  case (2 depth)
  show ?case by simp
next
  case (3 key v rest depth)
  then show ?case using dangerousAt_object by auto
qed

lemma wrap_Suc: "wrap (Suc n) v = Obj [(''a'', wrap n v)]"
  by (simp add: wrap_def)

lemma wrap_0: "wrap 0 v = v"
  by (simp add: wrap_def)

lemma dangerousAt_wrap:
  "k \<in> set dangerousKeys \<Longrightarrow>
     dangerousAt l (wrap n (Obj [(k, x)])) = (l = n \<or> (n < l \<and> dangerousAt (l - n - 1) x))"
proof (induction n arbitrary: l)
  case 0
  then show ?case by (cases l) (auto simp: wrap_0)
next
  case (Suc n)
  show ?case
  proof (cases l)
    case 0
    then show ?thesis by (simp add: wrap_Suc dangerousKeys_def)
  next
    case (Suc m)
    then show ?thesis using Suc.IH[OF Suc.prems, of m] by (simp add: wrap_Suc)
  qed
qed

lemma wrap_depth:
  "k \<in> set dangerousKeys \<Longrightarrow> hasPrototypePollution (wrap n (Obj [(k, x)])) 0 = (n \<le> 10)"
  by (auto simp: scan_characterisation(1) dangerousAt_wrap)

text \<open>
  Claim C7. With the guard enabled, and \<^verbatim>\<open>JSON.parse\<close> returning \<open>parsed\<close> for the text:
  the parses of \<^verbatim>\<open>{"__proto__":{"x":1}}\<close>, \<^verbatim>\<open>{"constructor":{"prototype":{}}}\<close> and
  \<^verbatim>\<open>{"a":{"b":{"__proto__":{}}}}\<close> fail with "Invalid tool arguments: potentially
  malicious content detected"; the parse of \<^verbatim>\<open>{"a":1}\<close> succeeds with \<^verbatim>\<open>{a:1}\<close>. The
  malicious-content error is returned exactly when a dangerous key occurs among the own
  keys of the value or of a value nested at most 10 levels below it; a dangerous key
  under \<open>n\<close> enclosing objects is found if and only if \<open>n \<le> 10\<close>, so deeper keys are
  not scanned.
\<close>

theorem parseToolArguments_pollution:
  assumes "enabled (g_config g)" and "JSON_parse jsonString = Inr parsed"
  shows "(parsed = Obj [(''__proto__'', Obj [(''x'', Num 1)])]
          \<or> parsed = Obj [(''constructor'', Obj [(''prototype'', Obj [])])]
          \<or> parsed = Obj [(''a'', Obj [(''b'', Obj [(''__proto__'', Obj [])])])]
          \<longrightarrow> fst (parseToolArguments JSON_parse g toolName jsonString) =
               Inr (fail_result ''Invalid tool arguments: potentially malicious content detected'' None))
       \<and> (parsed = Obj [(''a'', Num 1)]
          \<longrightarrow> fst (parseToolArguments JSON_parse g toolName jsonString) =
               Inr (ok_result (Obj [(''a'', Num 1)])))
       \<and> (fst (parseToolArguments JSON_parse g toolName jsonString) =
               Inr (fail_result ''Invalid tool arguments: potentially malicious content detected'' None)
          \<longleftrightarrow> (\<exists>l\<le>10. dangerousAt l parsed))
       \<and> (\<forall>key\<in>set dangerousKeys. \<forall>n x.
             hasPrototypePollution (wrap n (Obj [(key, x)])) 0 = (n \<le> 10))"
proof -
  have c: "hasPrototypePollution parsed 0 = (\<exists>l\<le>10. dangerousAt l parsed)"
    by (simp add: scan_characterisation(1))
  have r: "fst (parseToolArguments JSON_parse g toolName jsonString) =
      (if hasPrototypePollution parsed 0
       then Inr (fail_result ''Invalid tool arguments: potentially malicious content detected'' None)
       else if \<not> typeof_object parsed \<or> parsed = Null \<or> isArray parsed
       then Inr (fail_result ''Tool arguments must be a JSON object'' None)
       else Inr (ok_result parsed))"
    using assms by (simp add: parseToolArguments_def)
  have d0: "dangerousAt 0 (Obj [(''__proto__'', Obj [(''x'', Num 1)])])"
    by (simp add: dangerousKeys_def)
  have d1: "dangerousAt 0 (Obj [(''constructor'', Obj [(''prototype'', Obj [])])])"
    by (simp add: dangerousKeys_def)
  have d2: "dangerousAt 2 (Obj [(''a'', Obj [(''b'', Obj [(''__proto__'', Obj [])])])])"
    by (simp add: dangerousKeys_def numeral_2_eq_2)
  have d3: "\<not> dangerousAt l (Obj [(''a'', Num 1)])" for l
    using dangerousAt_object[of _ "Num 1"] by (cases l) (auto simp: dangerousKeys_def)
  have 1: "parsed = Obj [(''__proto__'', Obj [(''x'', Num 1)])]
          \<or> parsed = Obj [(''constructor'', Obj [(''prototype'', Obj [])])]
          \<or> parsed = Obj [(''a'', Obj [(''b'', Obj [(''__proto__'', Obj [])])])]
          \<longrightarrow> hasPrototypePollution parsed 0"
    unfolding c using d0 d1 d2 by (auto intro: exI[of _ 0] exI[of _ 2])
  have 2: "parsed = Obj [(''a'', Num 1)] \<longrightarrow> \<not> hasPrototypePollution parsed 0"
    unfolding c using d3 by blast
  have 3: "fst (parseToolArguments JSON_parse g toolName jsonString) =
               Inr (fail_result ''Invalid tool arguments: potentially malicious content detected'' None)
          \<longleftrightarrow> hasPrototypePollution parsed 0"
    unfolding r by (simp add: fail_result_def ok_result_def)
  show ?thesis
    using 1 2 3 c wrap_depth unfolding r by auto
qed

theorem parseToolArguments_pollution_witness:
  "fst (parseToolArguments (\<lambda>_. Inr (Obj [(''__proto__'', Obj [(''x'', Num 1)])]))
          (ToolGuard_new no_overrides) ''read_file'' ''text'')
     = Inr (fail_result ''Invalid tool arguments: potentially malicious content detected'' None)
   \<and> fst (parseToolArguments (\<lambda>_. Inr (Obj [(''a'', Num 1)]))
          (ToolGuard_new no_overrides) ''read_file'' ''text'')
     = Inr (ok_result (Obj [(''a'', Num 1)]))
   \<and> hasPrototypePollution (wrap 10 (Obj [(''__proto__'', Obj [])])) 0
   \<and> \<not> hasPrototypePollution (wrap 11 (Obj [(''__proto__'', Obj [])])) 0"
proof -
  have en: "enabled (g_config (ToolGuard_new no_overrides))"
    by (simp add: ToolGuard_new_def spread_def no_overrides_def DEFAULT_CONFIG_def)
  have k: "''__proto__'' \<in> set dangerousKeys"
    by (simp add: dangerousKeys_def)
  show ?thesis
    using parseToolArguments_pollution
            [OF en, of "\<lambda>_. Inr (Obj [(''__proto__'', Obj [(''x'', Num 1)])])" _ _ "''read_file''"]
          parseToolArguments_pollution
            [OF en, of "\<lambda>_. Inr (Obj [(''a'', Num 1)])" _ _ "''read_file''"] k
    by simp
qed

subsection \<open>The configuration that \<open>getConfig\<close> hands out\<close>

text \<open>
  Claim C8 says that changing the object returned by \<^verbatim>\<open>getConfig()\<close>, pushing onto its
  \<^verbatim>\<open>deniedTools\<close> included, never changes what the guard decides. The copy made by
  \<^verbatim>\<open>{ ...this.config }\<close> is shallow: a guard made with default settings allows
  \<^verbatim>\<open>x\<close>, and after \<^verbatim>\<open>guard.getConfig().deniedTools.push('x')\<close> the same guard denies
  it. The constructor copies \<^verbatim>\<open>DEFAULT_CONFIG\<close> in the same way, so \<^verbatim>\<open>denyTool('x')\<close>
  on one default guard makes another guard, built afterwards, deny \<^verbatim>\<open>x\<close> as well.
\<close>

theorem getConfig_shares_deniedTools:
  "fst (isToolAllowed initial_heap (ToolGuard_new no_overrides) ''x'')
   \<and> \<not> fst (isToolAllowed
            (array_push initial_heap (deniedTools (getConfig (ToolGuard_new no_overrides))) ''x'')
            (ToolGuard_new no_overrides) ''x'')
   \<and> \<not> fst (isToolAllowed
            (denyTool initial_heap (ToolGuard_new no_overrides) ''x'')
            (ToolGuard_new (no_overrides\<lparr> p_validateParams := Some False \<rparr>)) ''x'')"
  by (simp add: isToolAllowed_def ToolGuard_new_def spread_def no_overrides_def DEFAULT_CONFIG_def
        initial_heap_def array_push_def getConfig_def denyTool_def)

section \<open>Properties of the sandbox\<close>

subsection \<open>The map of active executions\<close>

lemma map_get_Some_iff: "(map_get m k \<noteq> None) = (k \<in> set (map fst m))"
  by (simp add: map_get_def map_of_eq_None_iff)

lemma keys_map_delete: "map fst (map_delete m k) = filter (\<lambda>x. x \<noteq> k) (map fst m)"
  by (induction m) (auto simp: map_delete_def)


lemma length_filter_distinct:
  "distinct xs \<Longrightarrow> k \<in> set xs \<Longrightarrow> Suc (length (filter (\<lambda>x. x \<noteq> k) xs)) = length xs"
proof (induction xs)
  case Nil
  then show ?case by simp
next
  case (Cons x xs)
  show ?case
  proof (cases "x = k")
    case True
    with Cons.prems have "k \<notin> set xs" by simp
    then have "filter (\<lambda>x. x \<noteq> k) xs = xs" by (induction xs) auto
    with True show ?thesis by simp
  next
    case False
    with Cons show ?thesis by simp
  qed
qed

subsection \<open>Cancelling one execution\<close>

text \<open>
  Claim C10. \<^verbatim>\<open>cancel(executionId)\<close> on an active execution returns true, aborts the
  controller registered under the id, removes the id from the active set at once (it is
  no longer among \<^verbatim>\<open>getActiveExecutionIds()\<close>, every other id stays, and
  \<^verbatim>\<open>getActiveCount()\<close> is one less), and fires the cancelled notification once. On an
  id that is not active it returns false and changes nothing; a second cancel of the
  same id is such a call. The ids of the map are distinct, as the keys of a
  \<^verbatim>\<open>Map\<close> are.
\<close>

theorem cancel_active:
  assumes "distinct (getActiveExecutionIds sb)"
  shows "(execId \<in> set (getActiveExecutionIds sb) \<longrightarrow>
           (\<exists>controller. map_get (activeExecutions sb) execId = Some controller
              \<and> fst (cancel sb execId) = True
              \<and> controllers (snd (cancel sb execId)) controller = True
              \<and> getActiveExecutionIds (snd (cancel sb execId)) =
                  filter (\<lambda>x. x \<noteq> execId) (getActiveExecutionIds sb)
              \<and> execId \<notin> set (getActiveExecutionIds (snd (cancel sb execId)))
              \<and> Suc (getActiveCount (snd (cancel sb execId))) = getActiveCount sb
              \<and> s_fired (snd (cancel sb execId)) = s_fired sb @ [Cancelled execId]
              \<and> cancel (snd (cancel sb execId)) execId = (False, snd (cancel sb execId))))
       \<and> (execId \<notin> set (getActiveExecutionIds sb) \<longrightarrow> cancel sb execId = (False, sb))"
proof (intro conjI impI)
  assume a: "execId \<in> set (getActiveExecutionIds sb)"
  then obtain c where c: "map_get (activeExecutions sb) execId = Some c"
    using map_get_Some_iff[of "activeExecutions sb" execId]
    by (auto simp: getActiveExecutionIds_def)
  let ?sb = "snd (cancel sb execId)"
  have sb: "?sb = sb\<lparr> controllers := (controllers sb)(c := True),
                     activeExecutions := map_delete (activeExecutions sb) execId,
                     s_fired := s_fired sb @ [Cancelled execId] \<rparr>"
    by (simp add: cancel_def c)
  have ids: "getActiveExecutionIds ?sb = filter (\<lambda>x. x \<noteq> execId) (getActiveExecutionIds sb)"
    by (simp add: sb getActiveExecutionIds_def keys_map_delete)
  have notin: "execId \<notin> set (getActiveExecutionIds ?sb)"
    by (simp add: ids)
  have "map_get (activeExecutions ?sb) execId = None"
    using notin map_get_Some_iff[of "activeExecutions ?sb" execId]
    by (auto simp: getActiveExecutionIds_def)
  then have again: "cancel ?sb execId = (False, ?sb)"
    by (simp add: cancel_def)
  have cnt: "Suc (getActiveCount ?sb) = getActiveCount sb"
    using length_filter_distinct[OF assms a] ids
    by (metis getActiveCount_def getActiveExecutionIds_def length_map)
  show "\<exists>controller. map_get (activeExecutions sb) execId = Some controller
              \<and> fst (cancel sb execId) = True
              \<and> controllers (snd (cancel sb execId)) controller = True
              \<and> getActiveExecutionIds (snd (cancel sb execId)) =
                  filter (\<lambda>x. x \<noteq> execId) (getActiveExecutionIds sb)
              \<and> execId \<notin> set (getActiveExecutionIds (snd (cancel sb execId)))
              \<and> Suc (getActiveCount (snd (cancel sb execId))) = getActiveCount sb
              \<and> s_fired (snd (cancel sb execId)) = s_fired sb @ [Cancelled execId]
              \<and> cancel (snd (cancel sb execId)) execId = (False, snd (cancel sb execId))"
    using c ids notin again cnt by (intro exI[of _ c]) (simp add: sb, simp add: cancel_def c)
next
  assume "execId \<notin> set (getActiveExecutionIds sb)"
  then have "map_get (activeExecutions sb) execId = None"
    using map_get_Some_iff[of "activeExecutions sb" execId]
    by (auto simp: getActiveExecutionIds_def)
  then show "cancel sb execId = (False, sb)"
    by (simp add: cancel_def)
qed

theorem cancel_active_witness:
  "distinct (getActiveExecutionIds
      ((ToolSandbox_new 1 no_overrides)\<lparr> activeExecutions := [(''exec-1-1000'', 0)] \<rparr>))
   \<and> fst (cancel ((ToolSandbox_new 1 no_overrides)\<lparr> activeExecutions := [(''exec-1-1000'', 0)] \<rparr>)
            ''exec-1-1000'')
   \<and> getActiveCount (snd (cancel
        ((ToolSandbox_new 1 no_overrides)\<lparr> activeExecutions := [(''exec-1-1000'', 0)] \<rparr>)
        ''exec-1-1000'')) = 0
   \<and> \<not> fst (cancel (snd (cancel
        ((ToolSandbox_new 1 no_overrides)\<lparr> activeExecutions := [(''exec-1-1000'', 0)] \<rparr>)
        ''exec-1-1000'')) ''exec-1-1000'')
   \<and> \<not> fst (cancel ((ToolSandbox_new 1 no_overrides)\<lparr> activeExecutions := [(''exec-1-1000'', 0)] \<rparr>)
              ''non-existent-id'')"
proof -
  let ?sb = "(ToolSandbox_new 1 no_overrides)\<lparr> activeExecutions := [(''exec-1-1000'', 0)] \<rparr>"
  have d: "distinct (getActiveExecutionIds ?sb)"
    by (simp add: getActiveExecutionIds_def)
  have i: "''exec-1-1000'' \<in> set (getActiveExecutionIds ?sb)"
    by (simp add: getActiveExecutionIds_def)
  have n: "''non-existent-id'' \<notin> set (getActiveExecutionIds ?sb)"
    by (simp add: getActiveExecutionIds_def)
  have c: "getActiveCount ?sb = 1"
    by (simp add: getActiveCount_def)
  show ?thesis
    using cancel_active[OF d, of "''exec-1-1000''"] cancel_active[OF d, of "''non-existent-id''"]
          d i n c
    by auto
qed

subsection \<open>Execution ids are told apart by their counter\<close>







subsection \<open>The first callback decides the race\<close>






lemma race_fn_never:
  "executeWithTimeout None timeoutMs toolName (FnSettles # evs)
     = executeWithTimeout None timeoutMs toolName evs"
  by (simp add: executeWithTimeout_def)

subsection \<open>The branches of \<open>ToolSandbox_execute\<close>\<close>

lemma execute_bypass:
  "\<not> ToolSandbox_isEnabled sb \<Longrightarrow>
   ToolSandbox_execute js sb tool params ctx options evs w =
     (fst (execute tool params ctx w), sb, snd (execute tool params ctx w))"
  by (auto simp: ToolSandbox_execute_def ToolSandbox_isEnabled_def split: prod.splits)








subsection \<open>No execution id outlives its call\<close>



subsection \<open>The concurrency gate\<close>









subsection \<open>The timeout race\<close>




subsection \<open>The output size limit\<close>





section \<open>Properties of the registry\<close>

subsection \<open>Usage counters\<close>


text \<open>
  Claim C2 says that a failed call adds its duration to \<^verbatim>\<open>totalDuration\<close> as a
  successful one does. The \<^verbatim>\<open>catch\<close> branch only counts the failure: a registered tool
  that rejects after 5 ms leaves \<^verbatim>\<open>calls = 1\<close>, \<^verbatim>\<open>failures = 1\<close> and
  \<^verbatim>\<open>totalDuration = 0\<close>.
\<close>

theorem failed_call_not_timed:
  "register (ToolRegistry_create empty_context) failing_tool
     = Inr \<lparr> tools = [(''failing_tool'', failing_tool)], r_context = empty_context,
             usageStats = [(''failing_tool'', \<lparr> calls = 0, failures = 0, totalDuration = 0 \<rparr>)] \<rparr>
   \<and> ToolRegistry_execute
        \<lparr> tools = [(''failing_tool'', failing_tool)], r_context = empty_context,
          usageStats = [(''failing_tool'', \<lparr> calls = 0, failures = 0, totalDuration = 0 \<rparr>)] \<rparr>
        ''failing_tool'' (Obj []) \<lparr> now = 1000 \<rparr>
     = (Some (Inl ''Tool failed''),
        \<lparr> tools = [(''failing_tool'', failing_tool)], r_context = empty_context,
          usageStats = [(''failing_tool'', \<lparr> calls = 1, failures = 1, totalDuration = 0 \<rparr>)] \<rparr>,
        \<lparr> now = 1005 \<rparr>)"
  by (simp add: register_def ToolRegistry_create_def ToolRegistry_execute_def map_get_def
        failing_tool_def Let_def)

subsection \<open>Batches\<close>






lemma ok_registry_registered: "register (ToolRegistry_create empty_context) (echo_tool ''ok'') = Inr ok_registry"
  by (simp add: register_def ToolRegistry_create_def ok_registry_def echo_tool_def)



subsection \<open>The registry and the guard\<close>

text \<open>What the wrapper of \<^verbatim>\<open>createSecureTool\<close> does: the allow check first, then the
  validation against the tool's schema if it has one, and the sandbox last.\<close>

lemma createSecureTool_gate:
  "(\<not> fst (isToolAllowed h guard (name tool)) \<longrightarrow>
      createSecureTool h js tool sb guard params ctx evs w =
        (Some (Inl (''Tool '' @ quoted (name tool) @ '' is not allowed'')),
         (snd (isToolAllowed h guard (name tool)), sb), w))
   \<and> (fst (isToolAllowed h guard (name tool)) \<and> schema tool = None \<longrightarrow>
      createSecureTool h js tool sb guard params ctx evs w =
        (case ToolSandbox_execute js sb tool params
                (case ctx of Some c \<Rightarrow> c | None \<Rightarrow> empty_context) no_options evs w of
           (r, sb', w') \<Rightarrow> (r, (snd (isToolAllowed h guard (name tool)), sb'), w')))
   \<and> (\<forall>sch. fst (isToolAllowed h guard (name tool)) \<and> schema tool = Some sch \<longrightarrow>
      createSecureTool h js tool sb guard params ctx evs w =
        (case ToolGuard_validateParams (snd (isToolAllowed h guard (name tool))) (name tool) params sch of
           (Inl thrown, g') \<Rightarrow> (Some (Inl thrown), (g', sb), w)
         | (Inr validation, g') \<Rightarrow>
             if success validation then
               (case ToolSandbox_execute js sb tool
                       (case data validation of Some d \<Rightarrow> d | None \<Rightarrow> Undefined)
                       (case ctx of Some c \<Rightarrow> c | None \<Rightarrow> empty_context) no_options evs w of
                  (r, sb', w') \<Rightarrow> (r, (g', sb'), w'))
             else (Some (Inl (''Validation failed: '' @
                        (case error validation of Some e \<Rightarrow> e | None \<Rightarrow> ''undefined''))),
                   (g', sb), w)))"
  by (cases "isToolAllowed h guard (name tool)")
     (auto simp: createSecureTool_def Let_def split: prod.splits option.splits sum.splits bool.splits)


end
